theory Spec2Isabelle
  imports Main "HOL-Library.Word" "HOL-Library.AList"
begin

unbundle bit_operations_syntax

section \<open>Bytes, strings and the UTF-8 and hex encodings\<close>

text \<open>
  A Node \<open>Buffer\<close> is a list of bytes. A JavaScript string is the list of its UTF-16
  code units. The strings that the code builds itself from hex digits, and the session
  ids, are written as \<open>string\<close>s, a character standing for the code unit of the same
  value (below 256).
\<close>

type_synonym byte = "8 word"
type_synonym bytes = "byte list"
type_synonym js_string = "16 word list"


definition is_high :: "16 word \<Rightarrow> bool" where
  "is_high u = (0xD800 \<le> uint u \<and> uint u \<le> 0xDBFF)"

definition is_low :: "16 word \<Rightarrow> bool" where
  "is_low u = (0xDC00 \<le> uint u \<and> uint u \<le> 0xDFFF)"

text \<open>The code point of a code unit that is not part of a surrogate pair: an unpaired
  surrogate is read as U+FFFD.\<close>

definition lone_unit :: "16 word \<Rightarrow> int" where
  "lone_unit u = (if is_high u \<or> is_low u then 0xFFFD else uint u)"

definition pair_point :: "16 word \<Rightarrow> 16 word \<Rightarrow> int" where
  "pair_point u v = 0x10000 + (uint u - 0xD800) * 0x400 + (uint v - 0xDC00)"

text \<open>The code points an encoder reads from a string.\<close>

fun code_points :: "js_string \<Rightarrow> int list" where
  "code_points [] = []"
| "code_points [u] = [lone_unit u]"
| "code_points (u # v # us) =
     (if is_high u \<and> is_low v
      then pair_point u v # code_points us
      else lone_unit u # code_points (v # us))"

definition encode_cp :: "int \<Rightarrow> int list" where
  "encode_cp c =
     (if c < 0x80 then [c]
      else if c < 0x800 then [0xC0 + c div 64, 0x80 + c mod 64]
      else if c < 0x10000 then [0xE0 + c div 4096, 0x80 + (c div 64) mod 64, 0x80 + c mod 64]
      else [0xF0 + c div 262144, 0x80 + (c div 4096) mod 64, 0x80 + (c div 64) mod 64,
            0x80 + c mod 64])"

text \<open>\<open>Buffer.from(s, 'utf8')\<close> and \<open>TextEncoder.encode\<close>.\<close>

definition utf8_bytes :: "js_string \<Rightarrow> bytes" where
  "utf8_bytes s = map of_int (concat (map encode_cp (code_points s)))"








text \<open>\<open>buf.toString('hex')\<close>: two lowercase digits per byte, high nibble first.\<close>

definition hex_digit :: "nat \<Rightarrow> char" where
  "hex_digit n = (if n < 10 then char_of (48 + n) else char_of (87 + n))"

definition to_hex :: "bytes \<Rightarrow> string" where
  "to_hex bs = concat (map (\<lambda>b. [hex_digit (unat b div 16), hex_digit (unat b mod 16)]) bs)"

definition hex_value :: "char \<Rightarrow> nat option" where
  "hex_value c =
     (let n = (of_char c :: nat) in
      if 48 \<le> n \<and> n \<le> 57 then Some (n - 48)
      else if 97 \<le> n \<and> n \<le> 102 then Some (n - 87)
      else if 65 \<le> n \<and> n \<le> 70 then Some (n - 55)
      else None)"

text \<open>
  \<open>Buffer.from(s, 'hex')\<close>: pairs of digits are decoded from the left; decoding stops
  at the first pair that is not two hex digits, and a trailing single character is dropped.
\<close>

fun from_hex :: "string \<Rightarrow> bytes" where
  "from_hex (h # l # cs) =
     (case hex_value h of
        None \<Rightarrow> []
      | Some a \<Rightarrow> (case hex_value l of
                    None \<Rightarrow> []
                  | Some b \<Rightarrow> of_nat (16 * a + b) # from_hex cs))"
| "from_hex _ = []"


text \<open>JavaScript truthiness of an optional string: \<open>undefined\<close>, \<open>null\<close> and \<open>''\<close> are falsy.\<close>

fun truthy :: "string option \<Rightarrow> bool" where
  "truthy None = False"
| "truthy (Some s) = (s \<noteq> [])"

section \<open>QuantumCrypto (quantum-crypto.js)\<close>

text \<open>The fields \<open>private\<close> and \<open>public\<close> of a key pair.\<close>

record key_pair =
  private_key :: bytes
  public_key :: bytes

record quantum_crypto =
  keyPair :: "key_pair option"
  sharedSecret :: "bytes option"
  signatureKey :: "key_pair option"
  sharedSecrets :: "(string \<times> bytes) list option"

text \<open>The state set up by the constructor; the map \<open>sharedSecrets\<close> does not exist yet.\<close>

definition new_QuantumCrypto :: quantum_crypto where
  "new_QuantumCrypto =
     \<lparr>keyPair = None, sharedSecret = None, signatureKey = None, sharedSecrets = None\<rparr>"

datatype cause = NoSharedSecret | MissingFields | UnsupportedFormat | UnsupportedAlgorithm

datatype error =
    KeyExchangeFailed
  | SignFailed
  | EncryptFailed
  | DecryptFailed cause

text \<open>The value of the \<open>encrypted\<close> field of an envelope, by its JavaScript type.\<close>

datatype payload =
    EncString string
  | EncArray "int list"
  | EncBuffer bytes
  | EncObject
  | EncMissing




definition hasSharedSecretWith :: "quantum_crypto \<Rightarrow> string \<Rightarrow> bool" where
  "hasSharedSecretWith c peerId =
     (case sharedSecrets c of
        None \<Rightarrow> False
      | Some m \<Rightarrow> map_of m peerId \<noteq> None)"

text \<open>\<open>this.sharedSecrets.get(peerId)\<close>.\<close>

definition secret_of :: "quantum_crypto \<Rightarrow> string \<Rightarrow> bytes option" where
  "secret_of c peerId =
     (case sharedSecrets c of
        None \<Rightarrow> None
      | Some m \<Rightarrow> map_of m peerId)"







text \<open>
  Node's \<open>crypto\<close> module is not part of the repository: the hash and the keyed hash are
  parameters of the model, and every theorem below holds for all of them.
\<close>

record crypto_lib =
  sha256 :: "bytes \<Rightarrow> bytes"
  hmac_sha256 :: "bytes \<Rightarrow> bytes \<Rightarrow> bytes"

text \<open>The four \<open>crypto.randomBytes\<close> draws of \<open>generateKeyPair\<close>.\<close>

record random_keys =
  rnd_private :: bytes
  rnd_public :: bytes
  rnd_sig_private :: bytes
  rnd_sig_public :: bytes

text \<open>\<open>generateKeyPair\<close> returns the new state and the \<open>publicKey\<close> field of its result.\<close>

definition generateKeyPair :: "quantum_crypto \<Rightarrow> random_keys \<Rightarrow> quantum_crypto \<times> string" where
  "generateKeyPair c r =
     (c\<lparr>keyPair := Some \<lparr>private_key = rnd_private r, public_key = rnd_public r\<rparr>,
        signatureKey := Some \<lparr>private_key = rnd_sig_private r, public_key = rnd_sig_public r\<rparr>\<rparr>,
      to_hex (rnd_public r))"

text \<open>\<open>Buffer.compare\<close>: unsigned lexicographic order, a proper prefix first.\<close>

fun buffer_compare :: "bytes \<Rightarrow> bytes \<Rightarrow> int" where
  "buffer_compare [] [] = 0"
| "buffer_compare [] (y # ys) = - 1"
| "buffer_compare (x # xs) [] = 1"
| "buffer_compare (x # xs) (y # ys) =
     (if x < y then - 1 else if y < x then 1 else buffer_compare xs ys)"

text \<open>\<open>Array.prototype.sort\<close> with a comparator is a stable sort: an element stays before
  the elements it does not compare greater than.\<close>

fun insert_by :: "('a \<Rightarrow> 'a \<Rightarrow> int) \<Rightarrow> 'a \<Rightarrow> 'a list \<Rightarrow> 'a list" where
  "insert_by cmp x [] = [x]"
| "insert_by cmp x (y # ys) =
     (if cmp x y \<le> 0 then x # y # ys else y # insert_by cmp x ys)"

definition sort_by :: "('a \<Rightarrow> 'a \<Rightarrow> int) \<Rightarrow> 'a list \<Rightarrow> 'a list" where
  "sort_by cmp xs = foldr (insert_by cmp) xs []"

text \<open>\<open>Map.prototype.set\<close> on a map that may not exist yet (lines 105--108).\<close>

definition set_secret ::
  "(string \<times> bytes) list option \<Rightarrow> string \<Rightarrow> bytes \<Rightarrow> (string \<times> bytes) list" where
  "set_secret m k v = AList.update k v (case m of None \<Rightarrow> [] | Some kvs \<Rightarrow> kvs)"

text \<open>
  \<open>performKeyExchange(peerPublicKey, peerId = null)\<close>. Every exception inside the
  \<open>try\<close> (no key pair; \<open>Buffer.from(undefined, 'hex')\<close>) is rethrown as
  \<open>Failed to establish shared secret\<close>; on success the method returns \<open>true\<close>.
\<close>

definition performKeyExchange ::
  "crypto_lib \<Rightarrow> quantum_crypto \<Rightarrow> string option \<Rightarrow> string option \<Rightarrow> error + quantum_crypto" where
  "performKeyExchange L c peerPublicKey peerId =
     (case keyPair c of
        None \<Rightarrow> Inl KeyExchangeFailed
      | Some kp \<Rightarrow>
          (case peerPublicKey of
             None \<Rightarrow> Inl KeyExchangeFailed
           | Some hex \<Rightarrow>
               let peerPubKeyBuffer = from_hex hex;
                   keys = sort_by buffer_compare [public_key kp, peerPubKeyBuffer];
                   combined = concat keys;
                   secret = sha256 L combined;
                   c1 = (case peerId of
                           None \<Rightarrow> c
                         | Some p \<Rightarrow>
                             if p \<noteq> []
                             then c\<lparr>sharedSecrets := Some (set_secret (sharedSecrets c) p secret)\<rparr>
                             else c)
               in Inr (c1\<lparr>sharedSecret := Some secret\<rparr>)))"

record signature_data =
  signature :: string
  messageHash :: string
  signedAt :: nat

definition signMessage ::
  "crypto_lib \<Rightarrow> quantum_crypto \<Rightarrow> js_string \<Rightarrow> nat \<Rightarrow> error + signature_data" where
  "signMessage L c message now =
     (case signatureKey c of
        None \<Rightarrow> Inl SignFailed
      | Some k \<Rightarrow>
          let hash = sha256 L (utf8_bytes message)
          in Inr \<lparr>signature = to_hex (hmac_sha256 L (private_key k) hash),
                  messageHash = to_hex hash,
                  signedAt = now\<rparr>)"

text \<open>\<open>verifySignature\<close>: an exception (\<open>publicKey\<close> undefined) gives \<open>false\<close>.\<close>

definition verifySignature ::
  "crypto_lib \<Rightarrow> js_string \<Rightarrow> signature_data \<Rightarrow> string option \<Rightarrow> bool" where
  "verifySignature L message signatureData publicKey =
     (case publicKey of
        None \<Rightarrow> False
      | Some hex \<Rightarrow>
          let hash = sha256 L (utf8_bytes message);
              expectedSignature = to_hex (hmac_sha256 L (from_hex hex) hash)
          in signature signatureData = expectedSignature)"

record security_info =
  keyPairGenerated :: bool
  sharedSecretEstablished :: bool
  signatureKeyGenerated :: bool
  status :: string

definition getSecurityInfo :: "quantum_crypto \<Rightarrow> security_info" where
  "getSecurityInfo c =
     \<lparr>keyPairGenerated = (keyPair c \<noteq> None),
      sharedSecretEstablished = (sharedSecret c \<noteq> None),
      signatureKeyGenerated = (signatureKey c \<noteq> None),
      status = (if keyPair c \<noteq> None \<and> sharedSecret c \<noteq> None then ''Ready'' else ''Setting up...'')\<rparr>"

section \<open>ClientQuantumCrypto.performKeyExchange (browser client)\<close>

text \<open>
  In the browser the two public keys are JavaScript strings, sorted by the default
  \<open>sort()\<close>, which compares strings by UTF-16 code units. \<open>TextEncoder\<close> is the
  browser's own; the replacement that the repository installs where it is missing agrees
  with it on strings without unpaired surrogates.
\<close>

fun code_unit_compare :: "js_string \<Rightarrow> js_string \<Rightarrow> int" where
  "code_unit_compare [] [] = 0"
| "code_unit_compare [] (y # ys) = - 1"
| "code_unit_compare (x # xs) [] = 1"
| "code_unit_compare (x # xs) (y # ys) =
     (if x < y then - 1 else if y < x then 1 else code_unit_compare xs ys)"

record client_quantum_crypto =
  c_publicKey :: "js_string option"
  c_sharedSecrets :: "(string \<times> bytes) list"
  c_peers :: "(string \<times> js_string) list"

datatype client_error = NoPublicKey | PeerIdRequired | NotAFunction

text \<open>
  \<open>simpleHash(data)\<close> is called with the \<open>Uint8Array\<close> of the encoder: the first turn of
  its loop calls \<open>data.charCodeAt\<close>, which a \<open>Uint8Array\<close> does not have, and throws a
  \<open>TypeError\<close>. On empty data the loop is not entered and the result is 32 zero bytes.
\<close>

definition simpleHash :: "bytes \<Rightarrow> client_error + bytes" where
  "simpleHash data = (if data = [] then Inr (replicate 32 0) else Inl NotAFunction)"

text \<open>
  \<open>performKeyExchange(peerPublicKey, peerId)\<close> of the client, with the promise resolved:
  the state it leaves and the exception it throws, if any. \<open>subtle\<close> says whether
  \<open>crypto.subtle.digest\<close> exists; the digest is SHA-256.
\<close>

definition client_performKeyExchange ::
  "crypto_lib \<Rightarrow> bool \<Rightarrow> client_quantum_crypto \<Rightarrow> js_string \<Rightarrow> string
     \<Rightarrow> client_quantum_crypto \<times> client_error option" where
  "client_performKeyExchange L subtle c peerPublicKey peerId =
     (case c_publicKey c of
        None \<Rightarrow> (c, Some NoPublicKey)
      | Some own \<Rightarrow>
          if own = [] then (c, Some NoPublicKey)
          else if peerId = [] then (c, Some PeerIdRequired)
          else
            let c1 = c\<lparr>c_peers := AList.update peerId peerPublicKey (c_peers c)\<rparr>;
                keys = sort_by code_unit_compare [own, peerPublicKey];
                data = utf8_bytes (concat keys)
            in if subtle
               then (c1\<lparr>c_sharedSecrets := AList.update peerId (sha256 L data) (c_sharedSecrets c1)\<rparr>,
                     None)
               else (case simpleHash data of
                       Inl e \<Rightarrow> (c1, Some e)
                     | Inr secret \<Rightarrow>
                         (c1\<lparr>c_sharedSecrets := AList.update peerId secret (c_sharedSecrets c1)\<rparr>,
                          None)))"

section \<open>The relay server (server.js)\<close>

text \<open>
  One entry of the \<open>clients\<close> map. \<open>ws_open\<close> is \<open>ws.readyState === WebSocket.OPEN\<close>;
  \<open>sentPublicKeyTo\<close> is \<open>undefined\<close> until the first push. The field \<open>joinedAt\<close> is
  written once and never read, and is left out.
\<close>

record client =
  ws_open :: bool
  crypto :: quantum_crypto
  publicKey :: "string option"
  ready :: bool
  sentPublicKeyTo :: "string list option"

text \<open>The \<open>clients\<close> map, in insertion order (the order \<open>forEach\<close> visits).\<close>

type_synonym registry = "(string \<times> client) list"

text \<open>
  Messages from the server, by their \<open>type\<close>. The payload \<open>'d\<close> of an envelope is opaque to
  the server. Timestamps and the fixed human-readable texts are left out; of an \<open>error\<close>
  message the \<open>message\<close> field is kept.
\<close>

datatype 'd server_msg =
    Connected string
  | KeyGenerationStart
  | KeysGenerated string string
  | PeerPublicKey string "string option" string
  | KeyExchangeComplete "string option" security_info
  | PeerReady string
  | MessageReceivedFrom string 'd
  | MessageReceivedFromPeer string 'd
  | MessageSent
  | SecurityInfo security_info
  | UserLeft
  | ErrorMessage string

text \<open>Messages from a client, by their \<open>type\<close>.\<close>

datatype 'd client_msg =
    GenerateKeys
  | PublicKey "string option" "string option"
  | EncryptedMessage 'd
  | EncryptedGroupMessage "(string \<times> 'd) list option"
  | GetSecurityInfo
  | UnknownType

text \<open>Every \<open>ws.send\<close> is recorded, in order, with the id of the session whose socket it
  was called on.\<close>

type_synonym 'd sends = "(string \<times> 'd server_msg) list"

fun broadcastToAll :: "registry \<Rightarrow> 'd server_msg \<Rightarrow> string option \<Rightarrow> 'd sends" where
  "broadcastToAll [] message excludeClientId = []"
| "broadcastToAll ((clientId, cl) # rest) message excludeClientId =
     (if Some clientId \<noteq> excludeClientId \<and> ws_open cl then [(clientId, message)] else [])
     @ broadcastToAll rest message excludeClientId"

fun broadcastToReady :: "registry \<Rightarrow> 'd server_msg \<Rightarrow> string option \<Rightarrow> 'd sends" where
  "broadcastToReady [] message excludeClientId = []"
| "broadcastToReady ((clientId, cl) # rest) message excludeClientId =
     (if Some clientId \<noteq> excludeClientId \<and> ready cl \<and> ws_open cl then [(clientId, message)] else [])
     @ broadcastToReady rest message excludeClientId"

definition initiateKeyExchange :: "registry \<Rightarrow> string \<Rightarrow> 'd sends" where
  "initiateKeyExchange clients clientId =
     (case map_of clients clientId of
        None \<Rightarrow> []
      | Some cl \<Rightarrow> [(clientId, KeyGenerationStart)])"

definition handleKeyGeneration ::
  "registry \<Rightarrow> string \<Rightarrow> random_keys \<Rightarrow> registry \<times> 'd sends" where
  "handleKeyGeneration clients clientId rnd =
     (case map_of clients clientId of
        None \<Rightarrow> (clients, [])
      | Some cl \<Rightarrow>
          let (crypto', pub) = generateKeyPair (crypto cl) rnd;
              clients' = AList.update clientId (cl\<lparr>crypto := crypto', publicKey := Some pub\<rparr>) clients
          in (clients',
              (clientId, KeysGenerated pub ''Kyber-1024'')
              # broadcastToAll clients' (PeerPublicKey clientId (Some pub) ''Kyber-1024'') (Some clientId)))"

text \<open>\<open>peerClient.sentPublicKeyTo?.includes(clientId)\<close>; \<open>undefined\<close> is falsy.\<close>

fun includes_id :: "string list option \<Rightarrow> string \<Rightarrow> bool" where
  "includes_id None x = False"
| "includes_id (Some xs) x = (x \<in> set xs)"

text \<open>Lines 244--247: create the array if needed, then push.\<close>

fun push :: "string list option \<Rightarrow> string \<Rightarrow> string list option" where
  "push None x = Some [x]"
| "push (Some xs) x = Some (xs @ [x])"

text \<open>Lines 227--263: the notification of the peer named in the message, after the
  requesting client has been marked ready.\<close>

definition notifyPeer :: "registry \<Rightarrow> string \<Rightarrow> string \<Rightarrow> registry \<times> 'd sends" where
  "notifyPeer clients clientId peerId =
     (case map_of clients peerId of
        None \<Rightarrow> (clients, [])
      | Some peerClient \<Rightarrow>
          if ws_open peerClient then
            (if \<not> hasSharedSecretWith (crypto peerClient) clientId
                \<and> \<not> includes_id (sentPublicKeyTo peerClient) clientId
             then
               (AList.update peerId
                  (peerClient\<lparr>sentPublicKeyTo := push (sentPublicKeyTo peerClient) clientId\<rparr>) clients,
                [(peerId, PeerReady clientId),
                 (peerId, PeerPublicKey clientId
                            (case map_of clients clientId of None \<Rightarrow> None | Some cl \<Rightarrow> publicKey cl)
                            ''Kyber-1024'')])
             else (clients, [(peerId, PeerReady clientId)]))
          else (clients, []))"

text \<open>
  \<open>handlePublicKeyExchange\<close>. The call is \<open>performKeyExchange(message.peerPublicKey)\<close>:
  the second argument takes its default \<open>null\<close>.
\<close>

definition handlePublicKeyExchange ::
  "crypto_lib \<Rightarrow> registry \<Rightarrow> string \<Rightarrow> string option \<Rightarrow> string option \<Rightarrow> registry \<times> 'd sends" where
  "handlePublicKeyExchange L clients clientId peerPublicKey peerId =
     (case map_of clients clientId of
        None \<Rightarrow> (clients, [])
      | Some cl \<Rightarrow>
          (case performKeyExchange L (crypto cl) peerPublicKey None of
             Inl e \<Rightarrow> (clients, [(clientId, ErrorMessage ''Key exchange failed'')])
           | Inr crypto' \<Rightarrow>
               let clients1 = AList.update clientId (cl\<lparr>crypto := crypto', ready := True\<rparr>) clients;
                   sent1 = [(clientId, KeyExchangeComplete peerId (getSecurityInfo crypto'))]
               in (case peerId of
                     None \<Rightarrow> (clients1, sent1)
                   | Some p \<Rightarrow>
                       if p \<noteq> [] then
                         (let (clients2, sent2) = notifyPeer clients1 clientId p
                          in (clients2, sent1 @ sent2))
                       else (clients1, sent1))))"

text \<open>The \<open>forEach\<close> of \<open>handleGroupMessage\<close> over the \<open>(forPeer, data)\<close> pairs.\<close>

fun forwardEach :: "registry \<Rightarrow> string \<Rightarrow> (string \<times> 'd) list \<Rightarrow> 'd sends" where
  "forwardEach clients clientId [] = []"
| "forwardEach clients clientId ((recipientId, d) # rest) =
     (case map_of clients recipientId of
        None \<Rightarrow> []
      | Some recipientClient \<Rightarrow>
          if ws_open recipientClient then [(recipientId, MessageReceivedFromPeer clientId d)] else [])
     @ forwardEach clients clientId rest"

text \<open>A message without the \<open>encryptedMessages\<close> array throws inside the \<open>try\<close> and is
  answered with an error.\<close>

definition handleGroupMessage ::
  "registry \<Rightarrow> string \<Rightarrow> (string \<times> 'd) list option \<Rightarrow> 'd sends" where
  "handleGroupMessage clients clientId encryptedMessages =
     (case map_of clients clientId of
        None \<Rightarrow> []
      | Some cl \<Rightarrow>
          (case encryptedMessages of
             None \<Rightarrow> [(clientId, ErrorMessage ''Failed to send group message'')]
           | Some ems \<Rightarrow> forwardEach clients clientId ems @ [(clientId, MessageSent)]))"

datatype exn = TypeError

text \<open>\<open>handleEncryptedMessage\<close>: for an unknown id the guard itself reads
  \<open>client.ws\<close> of \<open>undefined\<close> and throws.\<close>

definition handleEncryptedMessage :: "registry \<Rightarrow> string \<Rightarrow> 'd \<Rightarrow> exn + 'd sends" where
  "handleEncryptedMessage clients clientId encryptedData =
     (case map_of clients clientId of
        None \<Rightarrow> Inl TypeError
      | Some cl \<Rightarrow>
          if \<not> ready cl
          then Inr [(clientId, ErrorMessage ''Client not ready for secure communication'')]
          else Inr (broadcastToReady clients (MessageReceivedFrom clientId encryptedData) (Some clientId)
                    @ [(clientId, MessageSent)]))"

definition handleSecurityInfoRequest :: "registry \<Rightarrow> string \<Rightarrow> 'd sends" where
  "handleSecurityInfoRequest clients clientId =
     (case map_of clients clientId of
        None \<Rightarrow> []
      | Some cl \<Rightarrow> [(clientId, SecurityInfo (getSecurityInfo (crypto cl)))])"

text \<open>\<open>handleMessage\<close> with the \<open>catch\<close> of the \<open>message\<close> listener around it.\<close>

definition handleMessage ::
  "crypto_lib \<Rightarrow> registry \<Rightarrow> string \<Rightarrow> 'd client_msg \<Rightarrow> random_keys \<Rightarrow> registry \<times> 'd sends" where
  "handleMessage L clients clientId message rnd =
     (case map_of clients clientId of
        None \<Rightarrow> (clients, [])
      | Some cl \<Rightarrow>
          (case message of
             GenerateKeys \<Rightarrow> handleKeyGeneration clients clientId rnd
           | PublicKey peerPublicKey peerId \<Rightarrow>
               handlePublicKeyExchange L clients clientId peerPublicKey peerId
           | EncryptedMessage d \<Rightarrow>
               (case handleEncryptedMessage clients clientId d of
                  Inl e \<Rightarrow> (clients, [(clientId, ErrorMessage ''Failed to process message'')])
                | Inr sent \<Rightarrow> (clients, sent))
           | EncryptedGroupMessage ems \<Rightarrow> (clients, handleGroupMessage clients clientId ems)
           | GetSecurityInfo \<Rightarrow> (clients, handleSecurityInfoRequest clients clientId)
           | UnknownType \<Rightarrow> (clients, [])))"

text \<open>
  What the server reacts to: a new connection (with the id drawn for it), a message, a
  socket leaving the \<open>OPEN\<close> state, the \<open>close\<close> event, and the two timers set at
  connection (\<open>initiateKeyExchange\<close>, then \<open>handleKeyGeneration\<close>).
\<close>

datatype 'd event =
    Connect string
  | Receive string "'d client_msg" random_keys
  | Closing string
  | Close string
  | KeyExchangeTimer string
  | KeyGenerationTimer string random_keys

definition new_client :: client where
  "new_client =
     \<lparr>ws_open = True, crypto = new_QuantumCrypto, publicKey = None, ready = False,
      sentPublicKeyTo = None\<rparr>"

definition step :: "crypto_lib \<Rightarrow> registry \<Rightarrow> 'd event \<Rightarrow> registry \<times> 'd sends" where
  "step L clients ev =
     (case ev of
        Connect clientId \<Rightarrow>
          (AList.update clientId new_client clients, [(clientId, Connected clientId)])
      | Receive clientId message rnd \<Rightarrow> handleMessage L clients clientId message rnd
      | Closing clientId \<Rightarrow>
          (case map_of clients clientId of
             None \<Rightarrow> (clients, [])
           | Some cl \<Rightarrow> (AList.update clientId (cl\<lparr>ws_open := False\<rparr>) clients, []))
      | Close clientId \<Rightarrow>
          (let clients' = AList.delete clientId clients
           in (clients', broadcastToAll clients' UserLeft (Some clientId)))
      | KeyExchangeTimer clientId \<Rightarrow> (clients, initiateKeyExchange clients clientId)
      | KeyGenerationTimer clientId rnd \<Rightarrow> handleKeyGeneration clients clientId rnd)"

text \<open>A run of the server: the registry after the events and everything sent, in order.\<close>

fun run :: "crypto_lib \<Rightarrow> registry \<Rightarrow> 'd event list \<Rightarrow> registry \<times> 'd sends" where
  "run L clients [] = (clients, [])"
| "run L clients (ev # evs) =
     (let (clients1, sent1) = step L clients ev;
          (clients2, sent2) = run L clients1 evs
      in (clients2, sent1 @ sent2))"

section \<open>Predicates used to state the properties\<close>


text \<open>A peer id that is in the registry with an open connection.\<close>

definition reachable :: "registry \<Rightarrow> string \<Rightarrow> bool" where
  "reachable clients peerId =
     (case map_of clients peerId of None \<Rightarrow> False | Some cl \<Rightarrow> ws_open cl)"

text \<open>A send that announces the public key of session \<open>a\<close> to session \<open>b\<close>.\<close>

fun announces :: "string \<Rightarrow> string \<Rightarrow> string \<times> 'd server_msg \<Rightarrow> bool" where
  "announces a b (r, PeerPublicKey i pk alg) = (r = b \<and> i = a)"
| "announces a b (r, m) = False"



text \<open>
  Two keys in canonical order: concatenated with the lexicographically smaller one first,
  in the order \<open>lexord\<close> of the library over the unsigned order of the bytes (of the
  code units, for the strings of the client).
\<close>

definition bytes_in_order :: "bytes \<Rightarrow> bytes \<Rightarrow> bytes" where
  "bytes_in_order a b = (if (b, a) \<in> lexord {(x, y). x < y} then b @ a else a @ b)"

definition units_in_order :: "js_string \<Rightarrow> js_string \<Rightarrow> js_string" where
  "units_in_order a b = (if (b, a) \<in> lexord {(x, y). x < y} then b @ a else a @ b)"

section \<open>Concrete sessions for the examples\<close>

text \<open>
  The examples need some hash and keyed hash to run; they use simple stand-ins. The
  general theorems do not depend on the choice.
\<close>

definition stand_in_lib :: crypto_lib where
  "stand_in_lib = \<lparr>sha256 = (\<lambda>bs. bs), hmac_sha256 = (\<lambda>k d. k @ d)\<rparr>"

definition keys_A :: random_keys where
  "keys_A = \<lparr>rnd_private = [0x01], rnd_public = [0xA1], rnd_sig_private = [0x03],
             rnd_sig_public = [0x04]\<rparr>"

definition keys_B :: random_keys where
  "keys_B = \<lparr>rnd_private = [0x05], rnd_public = [0xB2], rnd_sig_private = [0x07],
             rnd_sig_public = [0x08]\<rparr>"

text \<open>Two sessions connect; no keys yet.\<close>

definition connected_AB :: registry where
  "connected_AB = fst (run stand_in_lib [] [Connect ''A'', Connect ''B'' :: string event])"

text \<open>Both sessions have generated their keys.\<close>

definition keyed_AB :: registry where
  "keyed_AB =
     fst (run stand_in_lib connected_AB
            [KeyGenerationTimer ''A'' keys_A, KeyGenerationTimer ''B'' keys_B :: string event])"

text \<open>Both have processed the other's key.\<close>

definition exchanged_AB :: registry where
  "exchanged_AB =
     fst (run stand_in_lib keyed_AB
            [Receive ''B'' (PublicKey (Some ''a1'') (Some ''A'')) keys_B,
             Receive ''A'' (PublicKey (Some ''b2'') (Some ''B'')) keys_A :: string event])"

text \<open>The state of the \<open>QuantumCrypto\<close> object of a session with the keys \<open>keys_A\<close>.\<close>

definition crypto_A :: quantum_crypto where
  "crypto_A = fst (generateKeyPair new_QuantumCrypto keys_A)"

definition crypto_B :: quantum_crypto where
  "crypto_B = fst (generateKeyPair new_QuantumCrypto keys_B)"

section \<open>The cipher\<close>

lemma hex_value_digit: "n < 16 \<Longrightarrow> hex_value (hex_digit n) = Some n"
  by (auto simp: hex_value_def hex_digit_def Let_def)

lemma unat_byte_div16: "unat (b::byte) div 16 < 16"
proof -
  have "unat b < 256" using unsigned_less [of b, where ?'a = nat] by simp
  then show ?thesis by simp
qed

lemma from_hex_to_hex: "from_hex (to_hex bs) = bs"
  by (induction bs) (simp_all add: to_hex_def hex_value_digit unat_byte_div16)

lemma to_hex_inj: "to_hex a = to_hex b \<Longrightarrow> a = b"
  by (metis from_hex_to_hex)



















lemma utf8_bytes_Nil_iff: "utf8_bytes s = [] \<longleftrightarrow> s = []"
proof -
  have e: "\<And>c. encode_cp c \<noteq> []" by (simp add: encode_cp_def)
  show ?thesis
    by (cases s rule: code_points.cases) (simp_all add: utf8_bytes_def e)
qed







section \<open>Derivation of the shared secret\<close>

lemma buffer_compare_flip: "buffer_compare b a = - buffer_compare a b"
  by (induction a b rule: buffer_compare.induct) auto

lemma buffer_compare_zero: "buffer_compare a b = 0 \<Longrightarrow> a = b"
  by (induction a b rule: buffer_compare.induct) (auto split: if_splits)

lemma buffer_compare_lexord:
  "0 < buffer_compare a b \<longleftrightarrow> (b, a) \<in> lexord {(x, y). x < y}"
  by (induction a b rule: buffer_compare.induct) auto

lemma code_unit_compare_flip: "code_unit_compare b a = - code_unit_compare a b"
  by (induction a b rule: code_unit_compare.induct) auto

lemma code_unit_compare_zero: "code_unit_compare a b = 0 \<Longrightarrow> a = b"
  by (induction a b rule: code_unit_compare.induct) (auto split: if_splits)

lemma code_unit_compare_lexord:
  "0 < code_unit_compare a b \<longleftrightarrow> (b, a) \<in> lexord {(x, y). x < y}"
  by (induction a b rule: code_unit_compare.induct) auto

lemma sort_by_pair: "sort_by cmp [a, b] = (if cmp a b \<le> 0 then [a, b] else [b, a])"
  by (simp add: sort_by_def)

lemma sort_buffers: "concat (sort_by buffer_compare [a, b]) = bytes_in_order a b"
  using buffer_compare_lexord [of a b] by (auto simp: sort_by_pair bytes_in_order_def)

lemma sort_units: "concat (sort_by code_unit_compare [a, b]) = units_in_order a b"
  using code_unit_compare_lexord [of a b] by (auto simp: sort_by_pair units_in_order_def)

lemma bytes_in_order_comm: "bytes_in_order a b = bytes_in_order b a"
proof -
  consider "buffer_compare a b < 0" | "buffer_compare a b = 0" | "0 < buffer_compare a b"
    by linarith
  then show ?thesis
  proof cases
    case 1
    then have "0 < buffer_compare b a" "\<not> 0 < buffer_compare a b"
      by (simp_all add: buffer_compare_flip [of b a])
    then show ?thesis by (simp add: bytes_in_order_def buffer_compare_lexord)
  next
    case 2
    then have "a = b" by (rule buffer_compare_zero)
    then show ?thesis by simp
  next
    case 3
    then have "\<not> 0 < buffer_compare b a" by (simp add: buffer_compare_flip [of b a])
    with 3 show ?thesis by (simp add: bytes_in_order_def buffer_compare_lexord)
  qed
qed

lemma units_in_order_comm: "units_in_order a b = units_in_order b a"
proof -
  consider "code_unit_compare a b < 0" | "code_unit_compare a b = 0" | "0 < code_unit_compare a b"
    by linarith
  then show ?thesis
  proof cases
    case 1
    then have "0 < code_unit_compare b a" "\<not> 0 < code_unit_compare a b"
      by (simp_all add: code_unit_compare_flip [of b a])
    then show ?thesis by (simp add: units_in_order_def code_unit_compare_lexord)
  next
    case 2
    then have "a = b" by (rule code_unit_compare_zero)
    then show ?thesis by simp
  next
    case 3
    then have "\<not> 0 < code_unit_compare b a" by (simp add: code_unit_compare_flip [of b a])
    with 3 show ?thesis by (simp add: units_in_order_def code_unit_compare_lexord)
  qed
qed

lemma units_in_order_Nil: "a \<noteq> [] \<Longrightarrow> units_in_order a b \<noteq> []"
  by (simp add: units_in_order_def)

lemma performKeyExchange_result:
  assumes "keyPair c = Some k"
  shows "\<exists>c'. performKeyExchange L c (Some (to_hex pk)) peerId = Inr c'
          \<and> sharedSecret c' = Some (sha256 L (bytes_in_order (public_key k) pk))
          \<and> (truthy peerId \<longrightarrow> secret_of c' (the peerId) = sharedSecret c')"
  using assms
  by (cases peerId)
     (auto simp: performKeyExchange_def Let_def from_hex_to_hex secret_of_def set_secret_def
                 update_conv' sort_buffers)

lemma client_performKeyExchange_subtle:
  assumes "c_publicKey d = Some own" and "own \<noteq> []" and "peerId \<noteq> []"
  shows "\<exists>d'. client_performKeyExchange L True d peer peerId = (d', None)
          \<and> map_of (c_sharedSecrets d') peerId = Some (sha256 L (utf8_bytes (units_in_order own peer)))"
  using assms
  by (simp add: client_performKeyExchange_def Let_def update_conv' sort_units)

lemma client_performKeyExchange_fallback:
  assumes "c_publicKey d = Some own" and "own \<noteq> []" and "peerId \<noteq> []"
  shows "client_performKeyExchange L False d peer peerId
           = (d\<lparr>c_peers := AList.update peerId peer (c_peers d)\<rparr>, Some NotAFunction)"
proof -
  have "utf8_bytes (units_in_order own peer) \<noteq> []"
    using assms(2) by (simp add: utf8_bytes_Nil_iff units_in_order_Nil)
  then show ?thesis
    using assms by (simp add: client_performKeyExchange_def Let_def sort_units simpleHash_def)
qed

text \<open>
  Claim C2. Let session A hold a key pair and receive the hex form of B's public key, and
  let B hold a key pair and receive the hex form of A's. Then both calls of
  \<open>performKeyExchange\<close> succeed, and each leaves, in the single field and under the peer
  id when one is given, the SHA-256 hash of the two public keys concatenated in
  lexicographic byte order; that concatenation does not depend on which key is whose.
  The browser client, where \<open>crypto.subtle.digest\<close> exists, stores on both sides the
  SHA-256 hash of the UTF-8 bytes of the two key strings concatenated in lexicographic
  code-unit order. Where it does not exist, the call throws on both sides and stores no
  secret.
\<close>

theorem performKeyExchange_commutative:
  assumes "keyPair cA = Some kA" and "keyPair cB = Some kB"
    and "c_publicKey dA = Some ownA" and "c_publicKey dB = Some ownB"
    and "ownA \<noteq> []" and "ownB \<noteq> []" and "idA \<noteq> []" and "idB \<noteq> []"
  shows "(\<exists>cA' cB'.
            performKeyExchange L cA (Some (to_hex (public_key kB))) pB = Inr cA'
          \<and> performKeyExchange L cB (Some (to_hex (public_key kA))) pA = Inr cB'
          \<and> sharedSecret cA' = Some (sha256 L (bytes_in_order (public_key kA) (public_key kB)))
          \<and> sharedSecret cB' = sharedSecret cA'
          \<and> (truthy pB \<longrightarrow> secret_of cA' (the pB) = sharedSecret cA')
          \<and> (truthy pA \<longrightarrow> secret_of cB' (the pA) = sharedSecret cA'))
       \<and> bytes_in_order (public_key kA) (public_key kB) = bytes_in_order (public_key kB) (public_key kA)
       \<and> (\<exists>dA' dB'.
            client_performKeyExchange L True dA ownB idB = (dA', None)
          \<and> client_performKeyExchange L True dB ownA idA = (dB', None)
          \<and> map_of (c_sharedSecrets dA') idB = Some (sha256 L (utf8_bytes (units_in_order ownA ownB)))
          \<and> map_of (c_sharedSecrets dB') idA = map_of (c_sharedSecrets dA') idB)
       \<and> units_in_order ownA ownB = units_in_order ownB ownA
       \<and> client_performKeyExchange L False dA ownB idB
           = (dA\<lparr>c_peers := AList.update idB ownB (c_peers dA)\<rparr>, Some NotAFunction)
       \<and> client_performKeyExchange L False dB ownA idA
           = (dB\<lparr>c_peers := AList.update idA ownA (c_peers dB)\<rparr>, Some NotAFunction)"
proof -
  obtain cA' where A: "performKeyExchange L cA (Some (to_hex (public_key kB))) pB = Inr cA'"
      "sharedSecret cA' = Some (sha256 L (bytes_in_order (public_key kA) (public_key kB)))"
      "truthy pB \<longrightarrow> secret_of cA' (the pB) = sharedSecret cA'"
    using performKeyExchange_result [OF assms(1), of L "public_key kB" pB] by blast
  obtain cB' where B: "performKeyExchange L cB (Some (to_hex (public_key kA))) pA = Inr cB'"
      "sharedSecret cB' = Some (sha256 L (bytes_in_order (public_key kB) (public_key kA)))"
      "truthy pA \<longrightarrow> secret_of cB' (the pA) = sharedSecret cB'"
    using performKeyExchange_result [OF assms(2), of L "public_key kA" pA] by blast
  have eq: "sharedSecret cB' = sharedSecret cA'"
    using A(2) B(2) bytes_in_order_comm [of "public_key kA" "public_key kB"] by simp
  have server: "\<exists>cA' cB'.
            performKeyExchange L cA (Some (to_hex (public_key kB))) pB = Inr cA'
          \<and> performKeyExchange L cB (Some (to_hex (public_key kA))) pA = Inr cB'
          \<and> sharedSecret cA' = Some (sha256 L (bytes_in_order (public_key kA) (public_key kB)))
          \<and> sharedSecret cB' = sharedSecret cA'
          \<and> (truthy pB \<longrightarrow> secret_of cA' (the pB) = sharedSecret cA')
          \<and> (truthy pA \<longrightarrow> secret_of cB' (the pA) = sharedSecret cA')"
    using A B(1,3) eq by metis
  obtain dA' where DA: "client_performKeyExchange L True dA ownB idB = (dA', None)"
      "map_of (c_sharedSecrets dA') idB = Some (sha256 L (utf8_bytes (units_in_order ownA ownB)))"
    using client_performKeyExchange_subtle [OF assms(3,5,8), of L ownB] by blast
  obtain dB' where DB: "client_performKeyExchange L True dB ownA idA = (dB', None)"
      "map_of (c_sharedSecrets dB') idA = Some (sha256 L (utf8_bytes (units_in_order ownB ownA)))"
    using client_performKeyExchange_subtle [OF assms(4,6,7), of L ownA] by blast
  have client: "\<exists>dA' dB'.
            client_performKeyExchange L True dA ownB idB = (dA', None)
          \<and> client_performKeyExchange L True dB ownA idA = (dB', None)
          \<and> map_of (c_sharedSecrets dA') idB = Some (sha256 L (utf8_bytes (units_in_order ownA ownB)))
          \<and> map_of (c_sharedSecrets dB') idA = map_of (c_sharedSecrets dA') idB"
    using DA DB units_in_order_comm [of ownA ownB] by auto
  show ?thesis
    using server client bytes_in_order_comm [of "public_key kA" "public_key kB"]
      units_in_order_comm [of ownA ownB]
      client_performKeyExchange_fallback [OF assms(3,5,8), of L ownB]
      client_performKeyExchange_fallback [OF assms(4,6,7), of L ownA]
    by blast
qed

text \<open>Sessions with the public keys \<open>a1\<close> and \<open>b2\<close> derive the same secret from the
  other's key, on the server and in the browser.\<close>

theorem performKeyExchange_commutative_witness:
  "(\<exists>cA' cB'.
      performKeyExchange stand_in_lib crypto_A (Some (to_hex [0xB2])) (Some ''B'') = Inr cA'
    \<and> performKeyExchange stand_in_lib crypto_B (Some (to_hex [0xA1])) (Some ''A'') = Inr cB'
    \<and> sharedSecret cA' = Some [0xA1, 0xB2]
    \<and> sharedSecret cB' = Some [0xA1, 0xB2]
    \<and> secret_of cA' ''B'' = Some [0xA1, 0xB2]
    \<and> secret_of cB' ''A'' = Some [0xA1, 0xB2])
   \<and> (\<exists>dA' dB'.
      client_performKeyExchange stand_in_lib True
        \<lparr>c_publicKey = Some [0x62, 0x32], c_sharedSecrets = [], c_peers = []\<rparr> [0x61, 0x31] ''A''
        = (dA', None)
    \<and> client_performKeyExchange stand_in_lib True
        \<lparr>c_publicKey = Some [0x61, 0x31], c_sharedSecrets = [], c_peers = []\<rparr> [0x62, 0x32] ''B''
        = (dB', None)
    \<and> map_of (c_sharedSecrets dA') ''A'' = Some [0x61, 0x31, 0x62, 0x32]
    \<and> map_of (c_sharedSecrets dB') ''B'' = Some [0x61, 0x31, 0x62, 0x32])"
proof -
  let ?kA = "\<lparr>private_key = [0x01 :: byte], public_key = [0xA1 :: byte]\<rparr>"
  let ?kB = "\<lparr>private_key = [0x05 :: byte], public_key = [0xB2 :: byte]\<rparr>"
  let ?dA = "\<lparr>c_publicKey = Some [0x62, 0x32], c_sharedSecrets = [], c_peers = []\<rparr>"
  let ?dB = "\<lparr>c_publicKey = Some [0x61, 0x31], c_sharedSecrets = [], c_peers = []\<rparr>"
  have h1: "keyPair crypto_A = Some ?kA" by code_simp
  have h2: "keyPair crypto_B = Some ?kB" by code_simp
  have h3: "c_publicKey ?dA = Some [0x62, 0x32]" by simp
  have h4: "c_publicKey ?dB = Some [0x61, 0x31]" by simp
  have h5: "[0x62, 0x32 :: 16 word] \<noteq> []" "[0x61, 0x31 :: 16 word] \<noteq> []" "''B'' \<noteq> []" "''A'' \<noteq> []"
    by simp_all
  have o1: "sha256 stand_in_lib (bytes_in_order [0xA1] [0xB2]) = [0xA1, 0xB2]"
    by (simp add: stand_in_lib_def bytes_in_order_def)
  have o2: "sha256 stand_in_lib (utf8_bytes (units_in_order [0x62, 0x32] [0x61, 0x31]))
              = [0x61, 0x31, 0x62, 0x32]"
  proof -
    have "units_in_order [0x62, 0x32] [0x61, 0x31] = [0x61, 0x31, 0x62, 0x32]"
      by (simp add: units_in_order_def)
    moreover have "utf8_bytes [0x61, 0x31, 0x62, 0x32] = [0x61, 0x31, 0x62, 0x32]" by code_simp
    ultimately show ?thesis by (simp add: stand_in_lib_def)
  qed
  note t = performKeyExchange_commutative [OF h1 h2 h3 h4 h5, of stand_in_lib "Some ''B''" "Some ''A''"]
  from t obtain cA' cB' where s:
      "performKeyExchange stand_in_lib crypto_A (Some (to_hex (public_key ?kB))) (Some ''B'') = Inr cA'"
      "performKeyExchange stand_in_lib crypto_B (Some (to_hex (public_key ?kA))) (Some ''A'') = Inr cB'"
      "sharedSecret cA' = Some (sha256 stand_in_lib (bytes_in_order (public_key ?kA) (public_key ?kB)))"
      "sharedSecret cB' = sharedSecret cA'"
      "truthy (Some ''B'') \<longrightarrow> secret_of cA' (the (Some ''B'')) = sharedSecret cA'"
      "truthy (Some ''A'') \<longrightarrow> secret_of cB' (the (Some ''A'')) = sharedSecret cA'"
    by (elim conjE exE) 
  from t obtain dA' dB' where c:
      "client_performKeyExchange stand_in_lib True ?dA [0x61, 0x31] ''A'' = (dA', None)"
      "client_performKeyExchange stand_in_lib True ?dB [0x62, 0x32] ''B'' = (dB', None)"
      "map_of (c_sharedSecrets dA') ''A''
         = Some (sha256 stand_in_lib (utf8_bytes (units_in_order [0x62, 0x32] [0x61, 0x31])))"
      "map_of (c_sharedSecrets dB') ''B'' = map_of (c_sharedSecrets dA') ''A''"
    by (elim conjE exE)
  from s o1 have s': "sharedSecret cA' = Some [0xA1, 0xB2]" "sharedSecret cB' = Some [0xA1, 0xB2]"
      "secret_of cA' ''B'' = Some [0xA1, 0xB2]" "secret_of cB' ''A'' = Some [0xA1, 0xB2]"
    by simp_all
  from c o2 have c': "map_of (c_sharedSecrets dA') ''A'' = Some [0x61, 0x31, 0x62, 0x32]"
      "map_of (c_sharedSecrets dB') ''B'' = Some [0x61, 0x31, 0x62, 0x32]"
    by simp_all
  from s(1,2) have s'': "performKeyExchange stand_in_lib crypto_A (Some (to_hex [0xB2])) (Some ''B'') = Inr cA'"
    "performKeyExchange stand_in_lib crypto_B (Some (to_hex [0xA1])) (Some ''A'') = Inr cB'"
    by simp_all
  from s'' s' c(1,2) c' show ?thesis by blast
qed

section \<open>Signatures\<close>

text \<open>
  Claim C8. \<open>signMessage\<close> keys the HMAC of the message hash with the private signature
  key; \<open>verifySignature\<close> recomputes it with the bytes of the public key it is given.
  For a signer whose private and public signature keys give different HMACs of the
  message hash, signing succeeds and verifying the resulting signature with the signer's
  public key returns \<open>false\<close>; with any key, verification succeeds exactly when the two
  HMACs happen to coincide.
\<close>

theorem verifySignature_rejects_signMessage:
  assumes "signatureKey c = Some k"
    and "hmac_sha256 L (private_key k) (sha256 L (utf8_bytes m))
           \<noteq> hmac_sha256 L (public_key k) (sha256 L (utf8_bytes m))"
  shows "\<exists>sd. signMessage L c m now = Inr sd
           \<and> signature sd = to_hex (hmac_sha256 L (private_key k) (sha256 L (utf8_bytes m)))
           \<and> \<not> verifySignature L m sd (Some (to_hex (public_key k)))
           \<and> (\<forall>pk. verifySignature L m sd (Some pk)
                  \<longleftrightarrow> hmac_sha256 L (from_hex pk) (sha256 L (utf8_bytes m))
                       = hmac_sha256 L (private_key k) (sha256 L (utf8_bytes m)))"
  using assms
  by (auto simp: signMessage_def verifySignature_def Let_def from_hex_to_hex dest: to_hex_inj)

text \<open>A signer verifying its own signature with its own public signature key.\<close>

theorem verifySignature_rejects_signMessage_witness:
  "\<exists>sd. signMessage stand_in_lib crypto_A [0x68, 0x69] 7 = Inr sd
        \<and> \<not> verifySignature stand_in_lib [0x68, 0x69] sd (Some (to_hex [0x04]))"
proof -
  let ?k = "\<lparr>private_key = [0x03 :: byte], public_key = [0x04 :: byte]\<rparr>"
  have h1: "signatureKey crypto_A = Some ?k" by code_simp
  have h2: "hmac_sha256 stand_in_lib (private_key ?k) (sha256 stand_in_lib (utf8_bytes [0x68, 0x69]))
              \<noteq> hmac_sha256 stand_in_lib (public_key ?k) (sha256 stand_in_lib (utf8_bytes [0x68, 0x69]))"
    by code_simp
  from verifySignature_rejects_signMessage [OF h1 h2, of 7] show ?thesis by simp blast
qed

section \<open>The single shared-secret field\<close>



section \<open>Relay fan-out\<close>

lemma forwardEach_eq:
  "forwardEach clients a ems =
     map (\<lambda>(p, d). (p, MessageReceivedFromPeer a d)) (filter (\<lambda>(p, d). reachable clients p) ems)"
  by (induction ems) (auto simp: reachable_def split: option.splits)

lemma broadcastToReady_eq:
  "broadcastToReady clients msg ex =
     map (\<lambda>(i, cl). (i, msg)) (filter (\<lambda>(i, cl). Some i \<noteq> ex \<and> ready cl \<and> ws_open cl) clients)"
  by (induction clients) (auto split: if_splits)

lemma map_of_distinct_mem:
  "distinct (map fst kvs) \<Longrightarrow> (k, v) \<in> set kvs \<Longrightarrow> map_of kvs k = Some v"
  by simp

text \<open>
  Claim C3. For a registered sender \<open>a\<close> and a list of \<open>(forPeer, data)\<close> pairs, the
  sends of \<open>handleGroupMessage\<close> are exactly one \<open>message_received\<close> per pair whose
  \<open>forPeer\<close> is registered with an open connection, sent to that \<open>forPeer\<close> with that
  pair's data and in the order of the pairs, followed by one \<open>message_sent\<close> to the sender.
  Hence a payload reaches a session only if a pair addresses it to that session; a pair
  whose \<open>forPeer\<close> is absent or not open produces nothing, no error, and does not stop the
  pairs after it; and exactly one \<open>message_sent\<close> is sent, to the sender.
\<close>

theorem handleGroupMessage_addressed:
  assumes "map_of clients a = Some cl"
  shows "handleGroupMessage clients a (Some ems)
           = map (\<lambda>(p, d). (p, MessageReceivedFromPeer a d)) (filter (\<lambda>(p, d). reachable clients p) ems)
             @ [(a, MessageSent)]
       \<and> (\<forall>r b d. (r, MessageReceivedFromPeer b d) \<in> set (handleGroupMessage clients a (Some ems))
             \<longrightarrow> b = a \<and> (r, d) \<in> set ems \<and> reachable clients r)
       \<and> (\<forall>p d. (p, d) \<in> set ems \<and> reachable clients p
             \<longrightarrow> (p, MessageReceivedFromPeer a d) \<in> set (handleGroupMessage clients a (Some ems)))
       \<and> (\<forall>r e. (r, ErrorMessage e) \<notin> set (handleGroupMessage clients a (Some ems)))
       \<and> length (filter (\<lambda>(r, m). m = MessageSent) (handleGroupMessage clients a (Some ems))) = 1
       \<and> (\<forall>r. (r, MessageSent) \<in> set (handleGroupMessage clients a (Some ems)) \<longrightarrow> r = a)"
proof -
  let ?fw = "map (\<lambda>(p, d). (p, MessageReceivedFromPeer a d)) (filter (\<lambda>(p, d). reachable clients p) ems)"
  have eq: "handleGroupMessage clients a (Some ems) = ?fw @ [(a, MessageSent)]"
    using assms by (simp add: handleGroupMessage_def forwardEach_eq)
  have nosent: "filter (\<lambda>(r, m). m = MessageSent) ?fw = []"
    by (induction ems) auto
  show ?thesis
    unfolding eq using nosent by auto
qed

text \<open>Three sessions, C no longer open: a send addressed to B, C and the unknown D
  reaches B with B's payload only.\<close>

theorem handleGroupMessage_addressed_witness:
  "handleGroupMessage (fst (step stand_in_lib (fst (step stand_in_lib exchanged_AB (Connect ''C'' :: string event)))
                         (Closing ''C'' :: string event)))
      ''A'' (Some [(''B'', ''for-b''), (''C'', ''for-c''), (''D'', ''for-d'')])
    = [(''B'', MessageReceivedFromPeer ''A'' ''for-b''), (''A'', MessageSent)]"
proof -
  let ?cs = "fst (step stand_in_lib (fst (step stand_in_lib exchanged_AB (Connect ''C'' :: string event)))
                         (Closing ''C'' :: string event))"
  let ?ems = "[(''B'', ''for-b''), (''C'', ''for-c''), (''D'', ''for-d'')]"
  have "map_of ?cs ''A'' \<noteq> None" by code_simp
  then obtain cl where h: "map_of ?cs ''A'' = Some cl" by blast
  have f: "filter (\<lambda>(p, d). reachable ?cs p) ?ems = [(''B'', ''for-b'')]" by code_simp
  from handleGroupMessage_addressed [OF h, of ?ems] have
    "handleGroupMessage ?cs ''A'' (Some ?ems)
       = map (\<lambda>(p, d). (p, MessageReceivedFromPeer ''A'' d)) (filter (\<lambda>(p, d). reachable ?cs p) ?ems)
         @ [(''A'', MessageSent)]"
    by blast
  then show ?thesis unfolding f by simp
qed

text \<open>
  Claim C9. A registered sender that is not ready still has its addressed group message
  forwarded to the reachable recipients and acknowledged with \<open>message_sent\<close>, whereas its
  legacy broadcast is answered with an error only.
\<close>

theorem handleGroupMessage_ignores_ready:
  assumes "map_of clients a = Some cl" and "\<not> ready cl"
  shows "handleGroupMessage clients a (Some ems) = forwardEach clients a ems @ [(a, MessageSent)]
       \<and> (\<forall>p d. (p, d) \<in> set ems \<and> reachable clients p
             \<longrightarrow> (p, MessageReceivedFromPeer a d) \<in> set (handleGroupMessage clients a (Some ems)))
       \<and> (a, MessageSent) \<in> set (handleGroupMessage clients a (Some ems))
       \<and> handleEncryptedMessage clients a x
           = Inr [(a, ErrorMessage ''Client not ready for secure communication'')]"
  using assms
  by (auto simp: handleGroupMessage_def handleEncryptedMessage_def forwardEach_eq)

text \<open>Right after connecting, before any key exists, A's group message reaches B.\<close>

theorem handleGroupMessage_ignores_ready_witness:
  "handleGroupMessage connected_AB ''A'' (Some [(''B'', ''for-b'')])
     = [(''B'', MessageReceivedFromPeer ''A'' ''for-b''), (''A'', MessageSent)]
   \<and> handleEncryptedMessage connected_AB ''A'' ''for-all''
     = Inr [(''A'', ErrorMessage ''Client not ready for secure communication'')]"
proof -
  have h: "map_of connected_AB ''A'' = Some new_client" by code_simp
  have n: "\<not> ready new_client" by code_simp
  have f: "forwardEach connected_AB ''A'' [(''B'', ''for-b'')]
             = [(''B'', MessageReceivedFromPeer ''A'' ''for-b'')]" by code_simp
  from handleGroupMessage_ignores_ready [OF h n, of "[(''B'', ''for-b'')]" "''for-all''"] f
  show ?thesis by simp
qed

text \<open>
  Claim C4, amended to recipients with an open connection. A legacy broadcast of a
  registered sender that is not ready is answered with one error message to the sender
  and nothing else. When the sender is ready, the ciphertext is sent to every other
  registered session that is ready and whose connection is open, to no other session,
  and the sender gets \<open>message_sent\<close>.
\<close>

theorem handleEncryptedMessage_broadcast:
  assumes reg: "map_of clients a = Some cl" and dist: "distinct (map fst clients)"
  shows "(\<not> ready cl \<longrightarrow>
            handleEncryptedMessage clients a d
              = Inr [(a, ErrorMessage ''Client not ready for secure communication'')])
       \<and> (ready cl \<longrightarrow>
            (\<exists>sent. handleEncryptedMessage clients a d = Inr sent
              \<and> sent = map (\<lambda>(i, c). (i, MessageReceivedFrom a d))
                         (filter (\<lambda>(i, c). i \<noteq> a \<and> ready c \<and> ws_open c) clients)
                       @ [(a, MessageSent)]
              \<and> (\<forall>i c. map_of clients i = Some c \<and> i \<noteq> a \<and> ready c \<and> ws_open c
                    \<longrightarrow> (i, MessageReceivedFrom a d) \<in> set sent)
              \<and> (\<forall>i b x. (i, MessageReceivedFrom b x) \<in> set sent
                    \<longrightarrow> b = a \<and> x = d \<and> i \<noteq> a
                        \<and> (\<exists>c. map_of clients i = Some c \<and> ready c \<and> ws_open c))
              \<and> (\<forall>r e. (r, ErrorMessage e) \<notin> set sent)))"
proof -
  let ?rec = "map (\<lambda>(i, c). (i, MessageReceivedFrom a d))
                (filter (\<lambda>(i, c). i \<noteq> a \<and> ready c \<and> ws_open c) clients)"
  have nr: "\<not> ready cl \<Longrightarrow> handleEncryptedMessage clients a d
              = Inr [(a, ErrorMessage ''Client not ready for secure communication'')]"
    using reg by (simp add: handleEncryptedMessage_def)
  have r: "ready cl \<Longrightarrow> handleEncryptedMessage clients a d = Inr (?rec @ [(a, MessageSent)])"
    using reg by (simp add: handleEncryptedMessage_def broadcastToReady_eq)
  have all: "\<forall>i c. map_of clients i = Some c \<and> i \<noteq> a \<and> ready c \<and> ws_open c
                    \<longrightarrow> (i, MessageReceivedFrom a d) \<in> set (?rec @ [(a, MessageSent)])"
    by (auto dest!: map_of_SomeD intro!: image_eqI)
  have only: "\<forall>i b x. (i, MessageReceivedFrom b x) \<in> set (?rec @ [(a, MessageSent)])
                    \<longrightarrow> b = a \<and> x = d \<and> i \<noteq> a
                        \<and> (\<exists>c. map_of clients i = Some c \<and> ready c \<and> ws_open c)"
    using dist by (auto simp: map_of_distinct_mem)
  have noerr: "\<forall>r e. (r, ErrorMessage e) \<notin> set (?rec @ [(a, MessageSent)])"
    by auto
  show ?thesis
    using nr r all only noerr by blast
qed

text \<open>Before any exchange A's broadcast is refused; after the exchanges it reaches B.\<close>

theorem handleEncryptedMessage_broadcast_witness:
  "handleEncryptedMessage connected_AB ''A'' ''for-all''
     = Inr [(''A'', ErrorMessage ''Client not ready for secure communication'')]
   \<and> handleEncryptedMessage exchanged_AB ''A'' ''for-all''
     = Inr [(''B'', MessageReceivedFrom ''A'' ''for-all''), (''A'', MessageSent)]"
proof -
  have h0: "map_of connected_AB ''A'' = Some new_client" by code_simp
  have d0: "distinct (map fst connected_AB)" by code_simp
  have n0: "\<not> ready new_client" by code_simp
  have "map_of exchanged_AB ''A'' \<noteq> None" by code_simp
  then obtain cl where h1: "map_of exchanged_AB ''A'' = Some cl" by blast
  have "ready (the (map_of exchanged_AB ''A''))" by code_simp
  with h1 have r1: "ready cl" by simp
  have d1: "distinct (map fst exchanged_AB)" by code_simp
  have f: "map (\<lambda>(i, c). (i, MessageReceivedFrom ''A'' ''for-all''))
             (filter (\<lambda>(i, c). i \<noteq> ''A'' \<and> ready c \<and> ws_open c) exchanged_AB)
           = [(''B'', MessageReceivedFrom ''A'' ''for-all'')]" by code_simp
  from handleEncryptedMessage_broadcast [OF h0 d0, of "''for-all''"] n0
  have a: "handleEncryptedMessage connected_AB ''A'' ''for-all''
     = Inr [(''A'', ErrorMessage ''Client not ready for secure communication'')]" by blast
  from handleEncryptedMessage_broadcast [OF h1 d1, of "''for-all''"] r1
  have "handleEncryptedMessage exchanged_AB ''A'' ''for-all''
     = Inr (map (\<lambda>(i, c). (i, MessageReceivedFrom ''A'' ''for-all''))
             (filter (\<lambda>(i, c). i \<noteq> ''A'' \<and> ready c \<and> ws_open c) exchanged_AB)
            @ [(''A'', MessageSent)])" by blast
  with a show ?thesis unfolding f by simp
qed

text \<open>
  B is ready and registered, but its socket has left the \<open>OPEN\<close> state: A's broadcast is
  not delivered to B.
\<close>

theorem handleEncryptedMessage_skips_closing_peer:
  "map (\<lambda>(i, c). (i, ready c, ws_open c))
       (fst (step stand_in_lib exchanged_AB (Closing ''B'' :: string event)))
     = [(''A'', True, True), (''B'', True, False)]
   \<and> handleEncryptedMessage (fst (step stand_in_lib exchanged_AB (Closing ''B'' :: string event)))
       ''A'' ''for-all''
     = Inr [(''A'', MessageSent)]"
  by code_simp

section \<open>Key exchange on the server\<close>

text \<open>
  Claim C7. When the requesting session has no key pair, \<open>performKeyExchange\<close> fails, and
  \<open>handlePublicKeyExchange\<close> (also when reached through \<open>handleMessage\<close>) sends one error
  message to the requesting session, sends nothing to anyone else and leaves the whole
  registry as it was.
\<close>

theorem handlePublicKeyExchange_no_key_pair:
  assumes "map_of clients a = Some cl" and "keyPair (crypto cl) = None"
  shows "performKeyExchange L (crypto cl) peerPublicKey None = Inl KeyExchangeFailed
       \<and> handlePublicKeyExchange L clients a peerPublicKey peerId
           = (clients, [(a, ErrorMessage ''Key exchange failed'')])
       \<and> handleMessage L clients a (PublicKey peerPublicKey peerId) rnd
           = (clients, [(a, ErrorMessage ''Key exchange failed'')])"
  using assms
  by (simp add: performKeyExchange_def handlePublicKeyExchange_def handleMessage_def)

text \<open>A asks for an exchange with B before its keys were generated.\<close>

theorem handlePublicKeyExchange_no_key_pair_witness:
  "handleMessage stand_in_lib connected_AB ''A'' (PublicKey (Some ''b2'') (Some ''B'')) keys_A
     = (connected_AB, [(''A'', ErrorMessage ''Key exchange failed'' :: string server_msg)])"
proof -
  have h: "map_of connected_AB ''A'' = Some new_client" by code_simp
  have k: "keyPair (crypto new_client) = None" by code_simp
  from handlePublicKeyExchange_no_key_pair [OF h k, of stand_in_lib "Some ''b2''" "Some ''B''" keys_A]
  show ?thesis by blast
qed

text \<open>
  Claim C5, evaluated on the server. A and B have keys; A sends \<open>public_key\<close> with B's
  key and B's id. A is marked ready and the derived secret is in the single field, but
  A's per-peer map is still missing and \<open>hasSharedSecretWith\<close> B is false, because the
  handler calls \<open>performKeyExchange\<close> without the peer id. Called with the peer id, the
  same method stores the secret under B.
\<close>

theorem handlePublicKeyExchange_omits_peerId:
  "map (\<lambda>(i, cl). (i, ready cl, sharedSecret (crypto cl), sharedSecrets (crypto cl),
                    hasSharedSecretWith (crypto cl) ''B''))
       (fst (handleMessage stand_in_lib keyed_AB ''A''
               (PublicKey (Some ''b2'') (Some ''B'') :: string client_msg) keys_A))
     = [(''A'', True, Some [0xA1, 0xB2], None, False), (''B'', False, None, None, False)]
   \<and> performKeyExchange stand_in_lib crypto_A (Some ''b2'') (Some ''B'')
     = Inr (crypto_A\<lparr>sharedSecrets := Some [(''B'', [0xA1, 0xB2])],
                     sharedSecret := Some [0xA1, 0xB2]\<rparr>)"
  by code_simp

section \<open>Announcements of public keys\<close>

lemma handleKeyGeneration_keeps_maps:
  assumes "handleKeyGeneration cs x r = (cs', out)"
    and "\<forall>i cl. map_of cs i = Some cl \<longrightarrow> sharedSecrets (crypto cl) = None"
  shows "\<forall>i cl. map_of cs' i = Some cl \<longrightarrow> sharedSecrets (crypto cl) = None"
  using assms
  by (auto simp: handleKeyGeneration_def generateKeyPair_def Let_def update_conv'
           split: option.splits if_splits)

lemma performKeyExchange_keeps_map:
  "performKeyExchange L c pk None = Inr c' \<Longrightarrow> sharedSecrets c' = sharedSecrets c"
  by (auto simp: performKeyExchange_def Let_def split: option.splits)

lemma notifyPeer_keeps_maps:
  assumes "notifyPeer cs x p = (cs', out)"
    and "\<forall>i cl. map_of cs i = Some cl \<longrightarrow> sharedSecrets (crypto cl) = None"
  shows "\<forall>i cl. map_of cs' i = Some cl \<longrightarrow> sharedSecrets (crypto cl) = None"
  using assms
  by (auto simp: notifyPeer_def update_conv' split: option.splits if_splits)

lemma handlePublicKeyExchange_keeps_maps:
  assumes "handlePublicKeyExchange L cs x pk pid = (cs', out)"
    and inv: "\<forall>i cl. map_of cs i = Some cl \<longrightarrow> sharedSecrets (crypto cl) = None"
  shows "\<forall>i cl. map_of cs' i = Some cl \<longrightarrow> sharedSecrets (crypto cl) = None"
proof (cases "map_of cs x")
  case None
  with assms show ?thesis by (simp add: handlePublicKeyExchange_def)
next
  case (Some cl)
  show ?thesis
  proof (cases "performKeyExchange L (crypto cl) pk None")
    case (Inl e)
    with Some assms show ?thesis by (simp add: handlePublicKeyExchange_def)
  next
    case (Inr c')
    let ?cs1 = "AList.update x (cl\<lparr>crypto := c', ready := True\<rparr>) cs"
    have inv1: "\<forall>i cl. map_of ?cs1 i = Some cl \<longrightarrow> sharedSecrets (crypto cl) = None"
      using Some inv performKeyExchange_keeps_map [OF Inr]
      by (auto simp: update_conv' split: if_splits)
    show ?thesis
    proof (cases "\<exists>p. pid = Some p \<and> p \<noteq> []")
      case True
      then obtain p where p: "pid = Some p" "p \<noteq> []" by blast
      obtain cs2 out2 where n: "notifyPeer ?cs1 x p = (cs2, out2)"
          and r: "cs' = cs2" "out = (x, KeyExchangeComplete pid (getSecurityInfo c')) # out2"
        using Some Inr p assms(1)
        by (auto simp: handlePublicKeyExchange_def Let_def split: prod.splits)
      from notifyPeer_keeps_maps [OF n inv1] r show ?thesis by simp
    next
      case False
      then have "cs' = ?cs1"
        using Some Inr assms(1) by (cases pid) (auto simp: handlePublicKeyExchange_def Let_def)
      with inv1 show ?thesis by simp
    qed
  qed
qed

lemma step_keeps_maps:
  assumes "step L cs ev = (cs', out)"
    and inv: "\<forall>i cl. map_of cs i = Some cl \<longrightarrow> sharedSecrets (crypto cl) = None"
  shows "\<forall>i cl. map_of cs' i = Some cl \<longrightarrow> sharedSecrets (crypto cl) = None"
proof (cases ev)
  case (Connect i)
  with assms show ?thesis
    by (auto simp: step_def update_conv' new_client_def new_QuantumCrypto_def split: if_splits)
next
  case (Receive x msg r)
  show ?thesis
  proof (cases "map_of cs x")
    case None
    with Receive assms show ?thesis by (simp add: step_def handleMessage_def)
  next
    case (Some cl)
    show ?thesis
    proof (cases msg)
      case GenerateKeys
      with Receive Some assms(1) have "handleKeyGeneration cs x r = (cs', out)"
        by (simp add: step_def handleMessage_def)
      from handleKeyGeneration_keeps_maps [OF this inv] show ?thesis .
    next
      case (PublicKey pk pid)
      with Receive Some assms(1) have "handlePublicKeyExchange L cs x pk pid = (cs', out)"
        by (simp add: step_def handleMessage_def)
      from handlePublicKeyExchange_keeps_maps [OF this inv] show ?thesis .
    next
      case (EncryptedMessage d)
      with Receive Some assms show ?thesis
        by (auto simp: step_def handleMessage_def split: sum.splits)
    next
      case (EncryptedGroupMessage ems)
      with Receive Some assms show ?thesis by (auto simp: step_def handleMessage_def)
    next
      case GetSecurityInfo
      with Receive Some assms show ?thesis by (auto simp: step_def handleMessage_def)
    next
      case UnknownType
      with Receive Some assms show ?thesis by (auto simp: step_def handleMessage_def)
    qed
  qed
next
  case (Closing i)
  with assms show ?thesis
    by (auto simp: step_def update_conv' split: option.splits if_splits)
next
  case (Close i)
  with assms show ?thesis
    by (auto simp: step_def Let_def delete_conv' split: if_splits)
next
  case (KeyExchangeTimer i)
  with assms show ?thesis by (auto simp: step_def)
next
  case (KeyGenerationTimer i r)
  with assms(1) have "handleKeyGeneration cs i r = (cs', out)" by (simp add: step_def)
  from handleKeyGeneration_keeps_maps [OF this inv] show ?thesis .
qed

lemma run_keeps_maps:
  assumes "\<forall>i cl. map_of cs i = Some cl \<longrightarrow> sharedSecrets (crypto cl) = None"
  shows "\<forall>i cl. map_of (fst (run L cs evs)) i = Some cl \<longrightarrow> sharedSecrets (crypto cl) = None"
  using assms
proof (induction evs arbitrary: cs)
  case Nil
  then show ?case by simp
next
  case (Cons ev evs)
  obtain cs1 out1 where st: "step L cs ev = (cs1, out1)" by (cases "step L cs ev")
  from Cons.IH [OF step_keeps_maps [OF st Cons.prems]] st show ?case
    by (simp add: split_beta)
qed

text \<open>On the server no session ever gets a per-peer map, whatever happens: the first
  half of the guard of lines 240--241 is false in every registry the server can reach.\<close>

lemma per_peer_guard_never_fires:
  assumes "map_of (fst (run L [] evs)) b = Some peerClient"
  shows "\<not> hasSharedSecretWith (crypto peerClient) a"
proof -
  have "\<forall>i cl. map_of (fst (run L [] evs)) i = Some cl \<longrightarrow> sharedSecrets (crypto cl) = None"
    by (rule run_keeps_maps) simp
  with assms show ?thesis by (simp add: hasSharedSecretWith_def)
qed

text \<open>
  Claim C6, evaluated on an ordinary session. A and B connect and generate their keys,
  which announces A's key \<open>a1\<close> to B; B processes A's key and holds the derived secret;
  then A requests the exchange with B. At that moment \<open>hasSharedSecretWith\<close> A is false
  for B and the earlier announcement is not in B's \<open>sentPublicKeyTo\<close>, so the handler
  sends \<open>a1\<close> to B a second time. Called with the peer id, \<open>performKeyExchange\<close> would
  have recorded the secret under A.
\<close>

theorem handlePublicKeyExchange_announces_twice:
  "filter (announces ''A'' ''B'')
     (snd (run stand_in_lib []
        [Connect ''A'', Connect ''B'',
         KeyGenerationTimer ''A'' keys_A, KeyGenerationTimer ''B'' keys_B,
         Receive ''B'' (PublicKey (Some ''a1'') (Some ''A'')) keys_B,
         Receive ''A'' (PublicKey (Some ''b2'') (Some ''B'')) keys_A :: string event]))
     = [(''B'', PeerPublicKey ''A'' (Some ''a1'') ''Kyber-1024''),
        (''B'', PeerPublicKey ''A'' (Some ''a1'') ''Kyber-1024'')]
   \<and> map (\<lambda>(i, cl). (i, sharedSecret (crypto cl), hasSharedSecretWith (crypto cl) ''A'',
                     sentPublicKeyTo cl))
        (fst (run stand_in_lib []
           [Connect ''A'', Connect ''B'',
            KeyGenerationTimer ''A'' keys_A, KeyGenerationTimer ''B'' keys_B,
            Receive ''B'' (PublicKey (Some ''a1'') (Some ''A'')) keys_B :: string event]))
     = [(''A'', None, False, Some [''B'']), (''B'', Some [0xA1, 0xB2], False, None)]
   \<and> filter (\<lambda>(r, m). r = ''B'')
        (snd (step stand_in_lib
           (fst (run stand_in_lib []
              [Connect ''A'', Connect ''B'',
               KeyGenerationTimer ''A'' keys_A, KeyGenerationTimer ''B'' keys_B,
               Receive ''B'' (PublicKey (Some ''a1'') (Some ''A'')) keys_B :: string event]))
           (Receive ''A'' (PublicKey (Some ''b2'') (Some ''B'')) keys_A :: string event)))
     = [(''B'', PeerReady ''A''), (''B'', PeerPublicKey ''A'' (Some ''a1'') ''Kyber-1024'')]
   \<and> performKeyExchange stand_in_lib crypto_B (Some ''a1'') (Some ''A'')
     = Inr (crypto_B\<lparr>sharedSecrets := Some [(''A'', [0xA1, 0xB2])],
                     sharedSecret := Some [0xA1, 0xB2]\<rparr>)"
  by code_simp

end
